theory Spec2Isabelle
  imports Complex_Main "HOL-Library.Word" "HOL-Library.Sublist" "HOL-Library.Multiset"
begin

section \<open>JavaScript strings\<close>

text \<open>
  A JavaScript string is a sequence of UTF-16 code units. String literals of the
  source are ASCII and are written through \<open>lit\<close>.
\<close>

type_synonym jsstring = "16 word list"

definition lit :: "string \<Rightarrow> jsstring" where
  "lit s = map of_char s"

text \<open>
  \<open>String.prototype.trim\<close> removes the WhiteSpace and LineTerminator code points of
  ECMAScript from both ends: TAB, VT, FF, SP, NBSP, ZWNBSP, the other members of the
  Unicode category Zs, LF, CR, LS and PS. All of them are in the basic plane, so
  each is one code unit.
\<close>

definition isWhiteSpace :: "16 word \<Rightarrow> bool" where
  "isWhiteSpace c \<longleftrightarrow>
     c = 0x0009 \<or> c = 0x000A \<or> c = 0x000B \<or> c = 0x000C \<or> c = 0x000D \<or>
     c = 0x0020 \<or> c = 0x00A0 \<or> c = 0x1680 \<or> (0x2000 \<le> c \<and> c \<le> 0x200A) \<or>
     c = 0x2028 \<or> c = 0x2029 \<or> c = 0x202F \<or> c = 0x205F \<or> c = 0x3000 \<or>
     c = 0xFEFF"

definition trimStart :: "jsstring \<Rightarrow> jsstring" where
  "trimStart s = dropWhile isWhiteSpace s"

definition trimEnd :: "jsstring \<Rightarrow> jsstring" where
  "trimEnd s = rev (dropWhile isWhiteSpace (rev s))"

definition trim :: "jsstring \<Rightarrow> jsstring" where
  "trim s = trimEnd (trimStart s)"

text \<open>
  The empty string is the only falsy string, so the source's test \<open>!s.trim()\<close> is
  \<open>blank s\<close> and \<open>s.trim()\<close> in a condition is its negation.
\<close>

definition blank :: "jsstring \<Rightarrow> bool" where
  "blank s \<longleftrightarrow> trim s = []"

text \<open>
  \<open>Number.prototype.toString\<close> on a non-negative integer below \<open>10^21\<close> (every
  value of \<open>Date.now()\<close> and every list length is one): its decimal digits.
\<close>

definition digit :: "nat \<Rightarrow> 16 word" where
  "digit d = of_nat (48 + d)"

fun toString :: "nat \<Rightarrow> jsstring" where
  "toString n = (if n < 10 then [digit n] else toString (n div 10) @ [digit (n mod 10)])"

declare toString.simps [simp del]

text \<open>
  A value caught by a \<open>catch\<close> clause: an instance of \<open>Error\<close> with its message, or
  any other thrown value.
\<close>

datatype thrown = Error jsstring | NotAnError

section \<open>The API service (services/api.ts)\<close>

record Project =
  id_p :: jsstring
  name_p :: jsstring
  description_p :: "jsstring option"
  urls_p :: "jsstring list"
  created_at_p :: jsstring
  updated_at_p :: jsstring

record Chat =
  id_c :: jsstring
  project_id :: jsstring
  title :: jsstring
  created_at_c :: jsstring
  updated_at_c :: jsstring

datatype Role = User | Assistant

record Message =
  id_m :: jsstring
  role :: Role
  content :: jsstring
  sources :: "jsstring list"
  created_at_m :: jsstring

record QueryResponse =
  answer :: jsstring
  sources_r :: "jsstring list"
  message_id :: jsstring

text \<open>
  The payload of a request, an object literal of the source, as a JSON value with its
  properties in the order they are written.
\<close>

datatype json = JString jsstring | JArray "json list" | JObject "(string \<times> json) list"

datatype http_method = GET | POST

record http_request =
  http_method :: http_method
  baseURL :: string
  url :: string
  headers :: "(string \<times> string) list"
  payload :: "json option"

record 'a http_response =
  status :: nat
  data :: 'a

definition API_BASE_URL :: string where
  "API_BASE_URL = ''http://localhost:8000''"

text \<open>
  \<open>api.post(path, body)\<close> on the axios instance created with the base URL and the
  JSON content type. The transport \<open>send\<close> stands for the network and the server: it
  settles every request with a response or rejects it with a thrown value.
\<close>

definition api_post :: "string \<Rightarrow> json \<Rightarrow> http_request" where
  "api_post path body =
     \<lparr>http_method = POST, baseURL = API_BASE_URL, url = path,
      headers = [(''Content-Type'', ''application/json'')], payload = Some body\<rparr>"

definition createProject ::
  "(http_request \<Rightarrow> thrown + Project http_response) \<Rightarrow>
     jsstring \<Rightarrow> jsstring \<Rightarrow> jsstring list \<Rightarrow> thrown + Project" where
  "createProject send name description urls =
     (case send (api_post ''/projects''
                  (JObject [(''name'', JString name), (''description'', JString description),
                            (''urls'', JArray (map JString urls))])) of
        Inl err \<Rightarrow> Inl err
      | Inr response \<Rightarrow> Inr (data response))"

definition createChat ::
  "(http_request \<Rightarrow> thrown + Chat http_response) \<Rightarrow> jsstring \<Rightarrow> jsstring \<Rightarrow> thrown + Chat" where
  "createChat send projectId title' =
     (case send (api_post ''/chats''
                  (JObject [(''project_id'', JString projectId), (''title'', JString title')])) of
        Inl err \<Rightarrow> Inl err
      | Inr response \<Rightarrow> Inr (data response))"

text \<open>
  \<open>queryRAG\<close> hands back \<open>response.data\<close> as it arrived: the type \<open>QueryResponse\<close> of
  its result is a declaration of the source, nothing examines the body. So the
  body has any type here.
\<close>

definition queryRAG ::
  "(http_request \<Rightarrow> thrown + 'a http_response) \<Rightarrow> jsstring \<Rightarrow> jsstring \<Rightarrow> thrown + 'a" where
  "queryRAG send chatId question =
     (case send (api_post ''/query''
                  (JObject [(''chat_id'', JString chatId), (''question'', JString question)])) of
        Inl err \<Rightarrow> Inl err
      | Inr response \<Rightarrow> Inr (data response))"

section \<open>The create-project form (components/CreateProject.tsx)\<close>

record FormState =
  name :: jsstring
  description :: jsstring
  urls :: "jsstring list"
  currentUrl :: jsstring
  loading :: bool
  error :: "jsstring option"

definition initialForm :: FormState where
  "initialForm =
     \<lparr>name = [], description = [], urls = [[]], currentUrl = [], loading = False,
      error = None\<rparr>"

definition addURL :: "FormState \<Rightarrow> FormState" where
  "addURL s =
     (if \<not> blank (currentUrl s)
      then s\<lparr>urls := filter (\<lambda>u. \<not> blank u) (urls s) @ [trim (currentUrl s)],
             currentUrl := []\<rparr>
      else s)"

definition removeURL :: "nat \<Rightarrow> FormState \<Rightarrow> FormState" where
  "removeURL index s =
     s\<lparr>urls := map snd (filter (\<lambda>(i, _). i \<noteq> index) (enumerate 0 (urls s)))\<rparr>"

text \<open>The arguments of one call of \<open>createProject\<close>: name, description, URLs.\<close>

type_synonym createProject_call = "jsstring \<times> jsstring \<times> jsstring list"

text \<open>
  What a run of a submit handler leaves behind: the form state, the calls of
  \<open>createProject\<close> it issued, and whether it invoked \<open>onProjectCreated\<close>.
\<close>

record SubmitResult =
  form :: FormState
  issued :: "createProject_call list"
  projectCreated :: bool

text \<open>
  The \<open>try\<close>/\<open>catch\<close>/\<open>finally\<close> after the call of \<open>createProject\<close>, shared by both
  handlers: \<open>res\<close> is what the awaited promise settles to.
\<close>

definition createSettled :: "thrown + Project \<Rightarrow> createProject_call \<Rightarrow> FormState \<Rightarrow> SubmitResult" where
  "createSettled res call s =
     (case res of
        Inr p \<Rightarrow> \<lparr>form = s\<lparr>loading := False\<rparr>, issued = [call], projectCreated = True\<rparr>
      | Inl err \<Rightarrow>
          \<lparr>form = s\<lparr>error := Some (case err of Error m \<Rightarrow> m
                                      | NotAnError \<Rightarrow> lit ''Failed to create project''),
                    loading := False\<rparr>,
           issued = [call], projectCreated = False\<rparr>)"

definition handleSubmit ::
  "(jsstring \<Rightarrow> jsstring \<Rightarrow> jsstring list \<Rightarrow> thrown + Project) \<Rightarrow> FormState \<Rightarrow> SubmitResult" where
  "handleSubmit create s =
     (if blank (name s)
      then \<lparr>form = s\<lparr>error := Some (lit ''Project name is required'')\<rparr>, issued = [],
            projectCreated = False\<rparr>
      else
        let validUrls = filter (\<lambda>u. \<not> blank u) (urls s) in
        if length validUrls = 0 \<and> blank (currentUrl s)
        then \<lparr>form = s\<lparr>error := Some (lit ''At least one URL is required'')\<rparr>, issued = [],
              projectCreated = False\<rparr>
        else
          let finalUrls = (if \<not> blank (currentUrl s) then validUrls @ [trim (currentUrl s)]
                           else validUrls)
          in createSettled (create (trim (name s)) (trim (description s)) finalUrls)
               (trim (name s), trim (description s), finalUrls)
               (s\<lparr>loading := True, error := None\<rparr>))"

definition handleUseDefaults ::
  "(jsstring \<Rightarrow> jsstring \<Rightarrow> jsstring list \<Rightarrow> thrown + Project) \<Rightarrow> FormState \<Rightarrow> SubmitResult" where
  "handleUseDefaults create s =
     (if blank (name s)
      then \<lparr>form = s\<lparr>error := Some (lit ''Project name is required'')\<rparr>, issued = [],
            projectCreated = False\<rparr>
      else createSettled (create (trim (name s)) (trim (description s)) [])
             (trim (name s), trim (description s), [])
             (s\<lparr>loading := True, error := None\<rparr>))"

definition handleKeyPress :: "jsstring \<Rightarrow> bool \<Rightarrow> FormState \<Rightarrow> FormState" where
  "handleKeyPress key shiftKey s = (if key = lit ''Enter'' \<and> \<not> shiftKey then addURL s else s)"

text \<open>
  What happens to the form: an input sets its field, a button or a key runs its
  handler, and a call of \<open>createProject\<close> settles with the result the event carries.
  Every input and button is disabled while a call is pending, so a submit handler
  resumes in the state it left and runs as one step. The form starts in
  \<open>initialForm\<close>.
\<close>

datatype form_event =
  SetName jsstring
| SetDescription jsstring
| SetCurrentUrl jsstring
| AddURL
| RemoveURL nat
| KeyPress jsstring bool
| Submit "thrown + Project"
| UseDefaults "thrown + Project"

fun form_step :: "FormState \<Rightarrow> form_event \<Rightarrow> FormState" where
  "form_step s (SetName v) = s\<lparr>name := v\<rparr>"
| "form_step s (SetDescription v) = s\<lparr>description := v\<rparr>"
| "form_step s (SetCurrentUrl v) = s\<lparr>currentUrl := v\<rparr>"
| "form_step s AddURL = addURL s"
| "form_step s (RemoveURL index) = removeURL index s"
| "form_step s (KeyPress key shiftKey) = handleKeyPress key shiftKey s"
| "form_step s (Submit res) = form (handleSubmit (\<lambda>n d us. res) s)"
| "form_step s (UseDefaults res) = form (handleUseDefaults (\<lambda>n d us. res) s)"

definition form_after :: "form_event list \<Rightarrow> FormState" where
  "form_after events = foldl form_step initialForm events"

section \<open>The chat interface (components/ProjectChatInterface.tsx)\<close>

record ChatState =
  chats :: "Chat list"
  currentChat :: "Chat option"
  messages :: "Message list"
  currentMessage :: jsstring
  loading_c :: bool
  sidebarOpen :: bool

definition initialChatState :: ChatState where
  "initialChatState =
     \<lparr>chats = [], currentChat = None, messages = [], currentMessage = [],
      loading_c = False, sidebarOpen = True\<rparr>"

text \<open>
  The clock as a handler reads it: \<open>Date.now()\<close> in milliseconds, and
  \<open>new Date().toISOString()\<close>.
\<close>

record Clock =
  date_now :: nat
  iso_now :: jsstring

text \<open>
  An asynchronous handler runs up to its \<open>await\<close>, and resumes when the promise
  settles. The part after the \<open>await\<close> is a function of the values the handler
  captured when it was called, of the settled result, and of the component state at
  that later moment: a state update written \<open>setX(prev => ...)\<close> reads that state, an
  update written \<open>setX(value)\<close> overwrites it with a value computed from the captured
  ones.
\<close>

definition loadMessages_settled :: "thrown + Message list \<Rightarrow> ChatState \<Rightarrow> ChatState" where
  "loadMessages_settled res s =
     (case res of Inr messageList \<Rightarrow> s\<lparr>messages := messageList\<rparr> | Inl err \<Rightarrow> s)"

definition loadMessages ::
  "(jsstring \<Rightarrow> thrown + Message list) \<Rightarrow> jsstring \<Rightarrow> ChatState \<Rightarrow> ChatState" where
  "loadMessages getMessages chatId s = loadMessages_settled (getMessages chatId) s"

text \<open>The effect that follows every change of \<open>currentChat\<close>.\<close>

definition currentChat_effect ::
  "(jsstring \<Rightarrow> thrown + Message list) \<Rightarrow> ChatState \<Rightarrow> ChatState" where
  "currentChat_effect getMessages s =
     (case currentChat s of Some c \<Rightarrow> loadMessages getMessages (id_c c) s | None \<Rightarrow> s)"

definition createNewChat_settled :: "Chat list \<Rightarrow> thrown + Chat \<Rightarrow> ChatState \<Rightarrow> ChatState" where
  "createNewChat_settled chats0 res s =
     (case res of
        Inr newChat \<Rightarrow> s\<lparr>chats := newChat # chats0, currentChat := Some newChat, messages := []\<rparr>
      | Inl err \<Rightarrow> s)"

definition createNewChat ::
  "(jsstring \<Rightarrow> jsstring \<Rightarrow> thrown + Chat) \<Rightarrow> Project \<Rightarrow> ChatState \<Rightarrow> ChatState" where
  "createNewChat create project s =
     (let title' = lit ''Chat '' @ toString (length (chats s) + 1)
      in createNewChat_settled (chats s) (create (id_p project) title') s)"

definition switchChat :: "Chat \<Rightarrow> ChatState \<Rightarrow> ChatState" where
  "switchChat chat s = s\<lparr>currentChat := Some chat, messages := []\<rparr>"

definition userMessage :: "Clock \<Rightarrow> ChatState \<Rightarrow> Message" where
  "userMessage clk s =
     \<lparr>id_m = toString (date_now clk), role = User, content = currentMessage s, sources = [],
      created_at_m = iso_now clk\<rparr>"

definition assistantMessage :: "Clock \<Rightarrow> QueryResponse \<Rightarrow> Message" where
  "assistantMessage clk response =
     \<lparr>id_m = message_id response, role = Assistant, content = answer response,
      sources = sources_r response, created_at_m = iso_now clk\<rparr>"

definition errorMessage :: "Clock \<Rightarrow> thrown \<Rightarrow> Message" where
  "errorMessage clk err =
     \<lparr>id_m = toString (date_now clk + 1), role = Assistant,
      content = lit ''Sorry, I encountered an error: '' @
                (case err of Error m \<Rightarrow> m | NotAnError \<Rightarrow> lit ''Unknown error''),
      sources = [], created_at_m = iso_now clk\<rparr>"

text \<open>The early return of the chat form's submit handler.\<close>

definition submit_refused :: "ChatState \<Rightarrow> bool" where
  "submit_refused s \<longleftrightarrow> blank (currentMessage s) \<or> loading_c s \<or> currentChat s = None"

text \<open>The handler up to the \<open>await\<close>, when it does not return early.\<close>

definition submit_begin :: "Clock \<Rightarrow> ChatState \<Rightarrow> ChatState" where
  "submit_begin clk s =
     s\<lparr>messages := messages s @ [userMessage clk s], currentMessage := [], loading_c := True\<rparr>"

text \<open>
  The handler after the \<open>await\<close>: \<open>chat0\<close> is the captured \<open>currentChat\<close>, \<open>res\<close> what
  \<open>queryRAG\<close> settled to, \<open>s\<close> the state at that moment.
\<close>

definition submit_settled :: "Chat \<Rightarrow> Clock \<Rightarrow> thrown + QueryResponse \<Rightarrow> ChatState \<Rightarrow> ChatState" where
  "submit_settled chat0 clk res s =
     (case res of
        Inr response \<Rightarrow>
          s\<lparr>messages := messages s @ [assistantMessage clk response],
            chats := chat0 # filter (\<lambda>c. id_c c \<noteq> id_c chat0) (chats s),
            loading_c := False\<rparr>
      | Inl err \<Rightarrow>
          s\<lparr>messages := messages s @ [errorMessage clk err], loading_c := False\<rparr>)"

text \<open>
  The whole handler of the chat form, when nothing else happens while the query is
  pending: \<open>query\<close> is \<open>queryRAG\<close> with its transport, \<open>clk\<close> the clock at submission and
  \<open>clk'\<close> the clock when the query settles.
\<close>

definition handleSubmit_c ::
  "(jsstring \<Rightarrow> jsstring \<Rightarrow> thrown + QueryResponse) \<Rightarrow> Clock \<Rightarrow> Clock \<Rightarrow> ChatState \<Rightarrow> ChatState" where
  "handleSubmit_c query clk clk' s =
     (if submit_refused s then s
      else case currentChat s of
        None \<Rightarrow> s
      | Some chat0 \<Rightarrow>
          submit_settled chat0 clk' (query (id_c chat0) (currentMessage s)) (submit_begin clk s))"

text \<open>What the main area shows: the transcript is rendered in the order of the list.\<close>

datatype main_area = NoChatSelected | Welcome | Transcript "Message list"

definition render_main :: "ChatState \<Rightarrow> main_area" where
  "render_main s =
     (case currentChat s of
        None \<Rightarrow> NoChatSelected
      | Some c \<Rightarrow> if length (messages s) = 0 then Welcome else Transcript (messages s))"

section \<open>The retrieval engine\<close>

text \<open>
  Modelled from the spec: the Retrieval Engine (\<open>retrieve\<close>) belongs to the Python
  backend, which is not among the sources; only the front end that calls its
  \<open>/query\<close> endpoint is. The definitions below follow section 4.3 of the
  specification: the query text is embedded by the model provider (the parameter
  \<open>embedQuery\<close>), every chunk of the index is scored by the cosine similarity of its
  embedding with the query's, and the first \<open>k\<close> chunks by descending score are
  returned, chunks of equal score in the order they were inserted. An index is the
  list of its chunks in insertion order. The contract names no error.
\<close>

record Chunk =
  chunk_id :: string
  chunk_project_id :: string
  source_url :: string
  chunk_text :: string
  embedding :: "real list"

definition dot :: "real list \<Rightarrow> real list \<Rightarrow> real" where
  "dot u v = sum_list (map2 (*) u v)"

definition cosine :: "real list \<Rightarrow> real list \<Rightarrow> real" where
  "cosine u v = dot u v / (sqrt (dot u u) * sqrt (dot v v))"

definition scored :: "(string \<Rightarrow> real list) \<Rightarrow> Chunk list \<Rightarrow> string \<Rightarrow> (Chunk \<times> real) list" where
  "scored embedQuery index query_text =
     map (\<lambda>c. (c, cosine (embedQuery query_text) (embedding c))) index"

definition retrieve ::
  "(string \<Rightarrow> real list) \<Rightarrow> Chunk list \<Rightarrow> string \<Rightarrow> nat \<Rightarrow> (Chunk \<times> real) list" where
  "retrieve embedQuery index query_text k =
     take k (sort_key (\<lambda>p. - snd p) (scored embedQuery index query_text))"

section \<open>The message store, the query orchestrator and the query endpoint\<close>

text \<open>
  Modelled from the spec: the Chat/Message Store belongs to the Python backend, which
  is not among the sources. The definitions follow sections 3 and 4.5 of the
  specification. The store holds the chats and, in the order they were appended, the
  messages with the id of their chat. \<open>appendMessage\<close> fails with \<open>NotFoundError\<close> on
  an unknown chat id; otherwise it inserts the message and sets the chat's
  \<open>updated_at\<close> to the message's timestamp. \<open>listMessages\<close> gives the messages of a
  chat in creation order. The specification says nothing on how an id or a timestamp
  is made, so each append takes them as its stamp. A write to the store succeeds:
  the \<open>PersistenceError\<close> of section 7 has no cause here.
\<close>

datatype spec_error =
  ValidationError | NotFoundError | IngestionError | IndexUnavailableError | ProviderError
| PersistenceError

record Stamp =
  stamp_id :: jsstring
  stamp_time :: jsstring

record Store =
  store_chats :: "Chat list"
  store_messages :: "(jsstring \<times> Message) list"

definition find_chat :: "Store \<Rightarrow> jsstring \<Rightarrow> Chat option" where
  "find_chat st cid = find (\<lambda>c. id_c c = cid) (store_chats st)"

definition appendMessage ::
  "Stamp \<Rightarrow> Store \<Rightarrow> jsstring \<Rightarrow> Role \<Rightarrow> jsstring \<Rightarrow> jsstring list \<Rightarrow>
     spec_error + Message \<times> Store" where
  "appendMessage stamp st cid r text' srcs =
     (case find_chat st cid of
        None \<Rightarrow> Inl NotFoundError
      | Some chat \<Rightarrow>
          let msg = \<lparr>id_m = stamp_id stamp, role = r, content = text', sources = srcs,
                     created_at_m = stamp_time stamp\<rparr>
          in Inr (msg,
                  st\<lparr>store_messages := store_messages st @ [(cid, msg)],
                     store_chats :=
                       map (\<lambda>c. if id_c c = cid then c\<lparr>updated_at_c := stamp_time stamp\<rparr> else c)
                         (store_chats st)\<rparr>))"

definition listMessages :: "Store \<Rightarrow> jsstring \<Rightarrow> Message list" where
  "listMessages st cid = map snd (filter (\<lambda>entry. fst entry = cid) (store_messages st))"

text \<open>
  Modelled from the spec: the Query Orchestrator belongs to the Python backend, which
  is not among the sources. The definition follows the state machine of section 4.6.
  RECEIVED: the chat must exist (otherwise \<open>NotFoundError\<close>, and no message is
  created) and the user's message is persisted at once. RETRIEVING: the index of the
  chat's project is acquired and queried; an error there is a failure. GENERATING: an
  answer is generated from the question, the chunks and the last \<open>M\<close> messages of the
  chat; on \<open>ProviderError\<close> it is tried once more. PERSISTING: the assistant's message
  is appended, or after a failure an assistant message whose content describes the
  error and whose source list is empty. COMPLETE: the answer, the sources and the id
  of the message just persisted are returned. The index cache with the retrieval
  engine, the answer generator (called with the number of the attempt), the wording
  of an error and the window \<open>M\<close> are parameters.
\<close>

record 'c Providers =
  acquire_retrieve :: "jsstring \<Rightarrow> jsstring \<Rightarrow> spec_error + 'c list"
  generate_answer ::
    "nat \<Rightarrow> jsstring \<Rightarrow> 'c list \<Rightarrow> Message list \<Rightarrow> spec_error + jsstring \<times> jsstring list"
  describe_error :: "spec_error \<Rightarrow> jsstring"
  history_window :: nat

definition recent_history :: "nat \<Rightarrow> Message list \<Rightarrow> Message list" where
  "recent_history M msgs = drop (length msgs - M) msgs"

definition pipeline ::
  "'c Providers \<Rightarrow> Store \<Rightarrow> Chat \<Rightarrow> jsstring \<Rightarrow> spec_error + jsstring \<times> jsstring list" where
  "pipeline P st chat asked' =
     (case acquire_retrieve P (project_id chat) asked' of
        Inl e \<Rightarrow> Inl e
      | Inr chunks \<Rightarrow>
          let history = recent_history (history_window P) (listMessages st (id_c chat))
          in case generate_answer P 0 asked' chunks history of
               Inl ProviderError \<Rightarrow> generate_answer P 1 asked' chunks history
             | outcome \<Rightarrow> outcome)"

definition run_query ::
  "'c Providers \<Rightarrow> Stamp \<Rightarrow> Stamp \<Rightarrow> Store \<Rightarrow> jsstring \<Rightarrow> jsstring \<Rightarrow>
     (spec_error + QueryResponse) \<times> Store" where
  "run_query P user_stamp assistant_stamp st cid asked' =
     (case find_chat st cid of
        None \<Rightarrow> (Inl NotFoundError, st)
      | Some chat \<Rightarrow>
          (case appendMessage user_stamp st cid User asked' [] of
             Inl e \<Rightarrow> (Inl e, st)
           | Inr (user_msg, st1) \<Rightarrow>
               let (reply_text, reply_sources) =
                     (case pipeline P st1 chat asked' of
                        Inr generated \<Rightarrow> generated
                      | Inl e \<Rightarrow> (describe_error P e, []))
               in case appendMessage assistant_stamp st1 cid Assistant reply_text reply_sources of
                    Inl e \<Rightarrow> (Inl e, st1)
                  | Inr (assistant_msg, st2) \<Rightarrow>
                      (Inr \<lparr>answer = content assistant_msg, sources_r = sources assistant_msg,
                            message_id = id_m assistant_msg\<rparr>,
                       st2)))"

text \<open>
  Modelled from the spec: the binding of the \<open>/query\<close> endpoint to the orchestrator
  belongs to the Python backend, which is not among the sources. It follows
  section 6 (\<open>query(chat_id, question)\<close> gives \<open>{answer, sources[], message_id}\<close>),
  section 7 (a validation or not-found error is a failure of the request) and the
  endpoint list of the README (\<open>POST /query\<close>); the names of the properties are the
  ones \<open>api.ts\<close> sends and declares. How a failed request reaches the caller as a
  thrown value is the parameter \<open>refuse\<close>.
\<close>

definition encode_response :: "QueryResponse \<Rightarrow> json" where
  "encode_response r =
     JObject [(''answer'', JString (answer r)), (''sources'', JArray (map JString (sources_r r))),
              (''message_id'', JString (message_id r))]"

definition query_arguments :: "json option \<Rightarrow> (jsstring \<times> jsstring) option" where
  "query_arguments body =
     (case body of
        Some (JObject props) \<Rightarrow>
          (case (map_of props ''chat_id'', map_of props ''question'') of
             (Some (JString cid), Some (JString asked')) \<Rightarrow> Some (cid, asked')
           | _ \<Rightarrow> None)
      | _ \<Rightarrow> None)"

definition backend ::
  "'c Providers \<Rightarrow> Stamp \<Rightarrow> Stamp \<Rightarrow> (spec_error \<Rightarrow> thrown) \<Rightarrow> Store \<Rightarrow> http_request \<Rightarrow>
     (thrown + json http_response) \<times> Store" where
  "backend P user_stamp assistant_stamp refuse st req =
     (if http_method req = POST \<and> url req = ''/query''
      then case query_arguments (payload req) of
             None \<Rightarrow> (Inl (refuse ValidationError), st)
           | Some (cid, asked') \<Rightarrow>
               (case run_query P user_stamp assistant_stamp st cid asked' of
                  (Inl e, st') \<Rightarrow> (Inl (refuse e), st')
                | (Inr r, st') \<Rightarrow> (Inr \<lparr>status = 200, data = encode_response r\<rparr>, st'))
      else (Inl (refuse NotFoundError), st))"

section \<open>Concrete inputs\<close>

text \<open>The inputs at which the theorems below are instantiated.\<close>

definition rejecting :: "jsstring \<Rightarrow> jsstring \<Rightarrow> jsstring list \<Rightarrow> thrown + Project" where
  "rejecting n d us = Inl NotAnError"

definition chatA :: Chat where
  "chatA = \<lparr>id_c = lit ''a'', project_id = lit ''p'', title = lit ''Chat 1'',
            created_at_c = lit ''t1'', updated_at_c = lit ''t1''\<rparr>"

definition chatB :: Chat where
  "chatB = \<lparr>id_c = lit ''b'', project_id = lit ''p'', title = lit ''Chat 2'',
            created_at_c = lit ''t2'', updated_at_c = lit ''t2''\<rparr>"

definition projectP :: Project where
  "projectP = \<lparr>id_p = lit ''p'', name_p = lit ''Docs'', description_p = None, urls_p = [],
               created_at_p = lit ''t0'', updated_at_p = lit ''t0''\<rparr>"

definition clock1 :: Clock where
  "clock1 = \<lparr>date_now = 41, iso_now = lit ''t3''\<rparr>"

definition clock2 :: Clock where
  "clock2 = \<lparr>date_now = 57, iso_now = lit ''t4''\<rparr>"

definition reply :: QueryResponse where
  "reply = \<lparr>answer = lit ''yes'', sources_r = [lit ''https://x.org/''], message_id = lit ''m7''\<rparr>"

definition creatingA :: "jsstring \<Rightarrow> jsstring \<Rightarrow> thrown + Chat" where
  "creatingA projectId title' = Inr chatA"

definition creatingB :: "jsstring \<Rightarrow> jsstring \<Rightarrow> thrown + Chat" where
  "creatingB projectId title' = Inr chatB"

definition noMessages :: "jsstring \<Rightarrow> thrown + Message list" where
  "noMessages chatId = Inr []"

definition answering :: "jsstring \<Rightarrow> jsstring \<Rightarrow> thrown + QueryResponse" where
  "answering chatId question = Inr reply"

definition failing :: "jsstring \<Rightarrow> jsstring \<Rightarrow> thrown + QueryResponse" where
  "failing chatId question = Inl (Error (lit ''Network Error''))"

definition asked :: Message where
  "asked = \<lparr>id_m = lit ''m1'', role = User, content = lit ''hi'', sources = [],
            created_at_m = lit ''t1''\<rparr>"

definition answered :: Message where
  "answered = \<lparr>id_m = lit ''m2'', role = Assistant, content = lit ''hello'',
               sources = [lit ''https://x.org/''], created_at_m = lit ''t2''\<rparr>"

definition stored :: "jsstring \<Rightarrow> thrown + Message list" where
  "stored chatId = Inr [asked, answered]"

definition typing :: ChatState where
  "typing = \<lparr>chats = [chatB, chatA], currentChat = Some chatA, messages = [asked, answered],
             currentMessage = lit ''why?'', loading_c = False, sidebarOpen = True\<rparr>"

definition store1 :: Store where
  "store1 = \<lparr>store_chats = [chatB, chatA], store_messages = [(lit ''a'', asked)]\<rparr>"

definition stampU :: Stamp where
  "stampU = \<lparr>stamp_id = lit ''m6'', stamp_time = lit ''t3''\<rparr>"

definition stampV :: Stamp where
  "stampV = \<lparr>stamp_id = lit ''m7'', stamp_time = lit ''t4''\<rparr>"

definition retrieving1 :: "jsstring \<Rightarrow> jsstring \<Rightarrow> spec_error + string list" where
  "retrieving1 projectId asked' = Inr [''one'']"

definition generating1 ::
  "nat \<Rightarrow> jsstring \<Rightarrow> string list \<Rightarrow> Message list \<Rightarrow> spec_error + jsstring \<times> jsstring list" where
  "generating1 attempt asked' chunks history =
     (if attempt = 0 then Inl ProviderError else Inr (lit ''yes'', [lit ''https://x.org/'']))"

definition describing1 :: "spec_error \<Rightarrow> jsstring" where
  "describing1 e = lit ''Sorry''"

definition providers1 :: "string Providers" where
  "providers1 = \<lparr>acquire_retrieve = retrieving1, generate_answer = generating1,
                  describe_error = describing1, history_window = 4\<rparr>"

definition refusing :: "spec_error \<Rightarrow> thrown" where
  "refusing e = Error (lit ''Request failed'')"

definition chunk1 :: Chunk where
  "chunk1 = \<lparr>chunk_id = ''c1'', chunk_project_id = ''p'', source_url = ''u1'',
             chunk_text = ''one'', embedding = [1, 0]\<rparr>"

definition chunk2 :: Chunk where
  "chunk2 = \<lparr>chunk_id = ''c2'', chunk_project_id = ''p'', source_url = ''u2'',
             chunk_text = ''two'', embedding = [0, 1]\<rparr>"

definition chunk3 :: Chunk where
  "chunk3 = \<lparr>chunk_id = ''c3'', chunk_project_id = ''p'', source_url = ''u3'',
             chunk_text = ''three'', embedding = [1, 0]\<rparr>"

definition embed1 :: "string \<Rightarrow> real list" where
  "embed1 query_text = [1, 0]"

section \<open>Facts about strings\<close>

lemmas eval_simps = lit_def trim_def trimEnd_def trimStart_def isWhiteSpace_def blank_def

lemma trimEnd_fix: "s \<noteq> [] \<Longrightarrow> \<not> isWhiteSpace (last s) \<Longrightarrow> trimEnd s = s"
proof -
  assume "s \<noteq> []" "\<not> isWhiteSpace (last s)"
  then have "dropWhile isWhiteSpace (rev s) = rev s"
    by (simp add: dropWhile_eq_self_iff hd_rev)
  then show ?thesis by (simp add: trimEnd_def)
qed

lemma trimStart_fix: "s \<noteq> [] \<Longrightarrow> \<not> isWhiteSpace (hd s) \<Longrightarrow> trimStart s = s"
  by (simp add: trimStart_def dropWhile_eq_self_iff)

lemma trimEnd_last: "trimEnd s \<noteq> [] \<Longrightarrow> \<not> isWhiteSpace (last (trimEnd s))"
  unfolding trimEnd_def using hd_dropWhile [of isWhiteSpace "rev s"] by (simp add: last_rev)

lemma trimEnd_prefix: "prefix (trimEnd s) s"
proof -
  have "suffix (dropWhile isWhiteSpace (rev s)) (rev s)"
    by (rule suffix_dropWhile)
  then show ?thesis
    unfolding trimEnd_def by (simp add: suffix_to_prefix)
qed

lemma trimEnd_hd: "trimEnd s \<noteq> [] \<Longrightarrow> hd (trimEnd s) = hd s"
proof -
  assume ne: "trimEnd s \<noteq> []"
  obtain zs where "s = trimEnd s @ zs"
    using trimEnd_prefix [of s] by (auto simp: prefix_def)
  then have "hd s = hd (trimEnd s @ zs)" by simp
  with ne show ?thesis by simp
qed

lemma trim_hd: "trim s \<noteq> [] \<Longrightarrow> \<not> isWhiteSpace (hd (trim s))"
proof -
  assume ne: "trim s \<noteq> []"
  then have "trimStart s \<noteq> []" by (auto simp: trim_def trimEnd_def)
  then have "\<not> isWhiteSpace (hd (trimStart s))"
    unfolding trimStart_def by (rule hd_dropWhile)
  with ne show ?thesis by (simp add: trim_def trimEnd_hd)
qed

lemma trim_last: "trim s \<noteq> [] \<Longrightarrow> \<not> isWhiteSpace (last (trim s))"
  unfolding trim_def by (rule trimEnd_last)

lemma trim_idem: "trim (trim s) = trim s"
proof (cases "trim s = []")
  case True
  then show ?thesis by (simp add: trim_def [of "[]"] trimEnd_def trimStart_def)
next
  case False
  then have "trimStart (trim s) = trim s" by (simp add: trimStart_fix trim_hd)
  moreover have "trimEnd (trim s) = trim s" using False by (simp add: trimEnd_fix trim_last)
  ultimately show ?thesis by (simp add: trim_def[of "trim s"])
qed



section \<open>The create-project form: validation and the URLs sent\<close>

lemma urls_createSettled: "urls (form (createSettled res call s)) = urls s"
  by (simp add: createSettled_def split: sum.split)

lemma urls_handleSubmit: "urls (form (handleSubmit create s)) = urls s"
  by (simp add: handleSubmit_def Let_def urls_createSettled)

lemma urls_handleUseDefaults: "urls (form (handleUseDefaults create s)) = urls s"
  by (simp add: handleUseDefaults_def urls_createSettled)

lemma set_removeURL: "set (urls (removeURL index s)) \<subseteq> set (urls s)"
  by (auto simp: removeURL_def in_set_enumerate_eq)

lemma form_step_urls_trimmed:
  "\<forall>u \<in> set (urls s). trim u = u \<Longrightarrow> \<forall>u \<in> set (urls (form_step s e)). trim u = u"
proof (cases e)
  case AddURL
  assume "\<forall>u \<in> set (urls s). trim u = u"
  with AddURL show ?thesis by (auto simp: addURL_def trim_idem)
next
  case (RemoveURL index)
  assume "\<forall>u \<in> set (urls s). trim u = u"
  with RemoveURL show ?thesis using set_removeURL [of index s] by auto
next
  case (KeyPress key shiftKey)
  assume "\<forall>u \<in> set (urls s). trim u = u"
  with KeyPress show ?thesis by (auto simp: handleKeyPress_def addURL_def trim_idem)
qed (simp_all add: urls_handleSubmit urls_handleUseDefaults)

lemma form_after_urls_trimmed: "u \<in> set (urls (form_after events)) \<Longrightarrow> trim u = u"
proof -
  have "\<forall>u \<in> set (urls (foldl form_step initialForm events)). trim u = u"
  proof (induction events rule: rev_induct)
    case Nil
    show ?case by (simp add: initialForm_def trim_def trimEnd_def trimStart_def)
  next
    case (snoc e events)
    then show ?case using form_step_urls_trimmed by simp
  qed
  then show "u \<in> set (urls (form_after events)) \<Longrightarrow> trim u = u"
    by (simp add: form_after_def)
qed

lemma issued_createSettled: "issued (createSettled res call s) = [call]"
  by (simp add: createSettled_def split: sum.split)

text \<open>
  Claim C2. When the name is blank after trimming, neither the form's submit handler
  nor the handler of "Create with Default Docs" calls \<open>createProject\<close>; the form state
  is the old one with only the error message set, and the message is the validation
  failure "Project name is required". A call of \<open>createProject\<close> is issued only when
  the trimmed name is not empty.
\<close>

theorem blank_name_refused:
  "(blank (name s) \<longrightarrow>
      handleSubmit create s =
        \<lparr>form = s\<lparr>error := Some (lit ''Project name is required'')\<rparr>, issued = [],
         projectCreated = False\<rparr> \<and>
      handleUseDefaults create s =
        \<lparr>form = s\<lparr>error := Some (lit ''Project name is required'')\<rparr>, issued = [],
         projectCreated = False\<rparr>) \<and>
   (issued (handleSubmit create s) \<noteq> [] \<or> issued (handleUseDefaults create s) \<noteq> [] \<longrightarrow>
      trim (name s) \<noteq> [])"
  by (auto simp: handleSubmit_def handleUseDefaults_def blank_def)

theorem blank_name_refused_witness:
  "blank (name (initialForm\<lparr>name := lit ''  ''\<rparr>)) \<and>
   handleSubmit rejecting (initialForm\<lparr>name := lit ''  ''\<rparr>) =
     \<lparr>form = initialForm\<lparr>name := lit ''  '', error := Some (lit ''Project name is required'')\<rparr>,
      issued = [], projectCreated = False\<rparr> \<and>
   handleUseDefaults rejecting (initialForm\<lparr>name := lit ''  ''\<rparr>) =
     \<lparr>form = initialForm\<lparr>name := lit ''  '', error := Some (lit ''Project name is required'')\<rparr>,
      issued = [], projectCreated = False\<rparr> \<and>
   issued (handleUseDefaults rejecting (initialForm\<lparr>name := lit ''docs''\<rparr>)) \<noteq> [] \<and>
   trim (name (initialForm\<lparr>name := lit ''docs''\<rparr>)) \<noteq> []"
proof -
  have b: "blank (name (initialForm\<lparr>name := lit ''  ''\<rparr>))"
    by (simp add: eval_simps)
  have i: "issued (handleUseDefaults rejecting (initialForm\<lparr>name := lit ''docs''\<rparr>)) \<noteq> []"
    by (simp add: handleUseDefaults_def issued_createSettled eval_simps)
  from b i blank_name_refused [of "initialForm\<lparr>name := lit ''  ''\<rparr>" rejecting]
    blank_name_refused [of "initialForm\<lparr>name := lit ''docs''\<rparr>" rejecting]
  show ?thesis by simp
qed


text \<open>
  Claim C8, as stated: whenever no non-blank URL is present, the form's submit handler
  shows "At least one URL is required". It does not in the initial form, where the
  name is blank too: the name is checked first and the message is "Project name is
  required".
\<close>

theorem url_error_counterexample:
  "list_all blank (urls initialForm) \<and> blank (currentUrl initialForm) \<and>
   error (form (handleSubmit rejecting initialForm)) = Some (lit ''Project name is required'') \<and>
   error (form (handleSubmit rejecting initialForm)) \<noteq> Some (lit ''At least one URL is required'')"
  by (simp add: handleSubmit_def initialForm_def eval_simps)

text \<open>
  Claim C8, amended. The form's submit handler calls \<open>createProject\<close> only when a
  non-blank URL is present, in the list or in the input box; when none is present and
  the name is not blank it shows "At least one URL is required", changes nothing else
  and sends nothing. The handler of "Create with Default Docs" calls \<open>createProject\<close>
  with the empty URL list whenever the name is not blank.
\<close>

theorem creation_paths_differ:
  "(issued (handleSubmit create s) \<noteq> [] \<longrightarrow>
      \<not> list_all blank (urls s) \<or> \<not> blank (currentUrl s)) \<and>
   (\<not> blank (name s) \<and> list_all blank (urls s) \<and> blank (currentUrl s) \<longrightarrow>
      handleSubmit create s =
        \<lparr>form = s\<lparr>error := Some (lit ''At least one URL is required'')\<rparr>, issued = [],
         projectCreated = False\<rparr>) \<and>
   (\<not> blank (name s) \<longrightarrow>
      issued (handleUseDefaults create s) = [(trim (name s), trim (description s), [])])"
  by (auto simp: handleSubmit_def handleUseDefaults_def Let_def issued_createSettled
      list_all_iff filter_empty_conv)

theorem creation_paths_differ_witness:
  "\<not> blank (name (initialForm\<lparr>name := lit ''docs''\<rparr>)) \<and>
   list_all blank (urls (initialForm\<lparr>name := lit ''docs''\<rparr>)) \<and>
   blank (currentUrl (initialForm\<lparr>name := lit ''docs''\<rparr>)) \<and>
   handleSubmit rejecting (initialForm\<lparr>name := lit ''docs''\<rparr>) =
     \<lparr>form = initialForm\<lparr>name := lit ''docs'', error := Some (lit ''At least one URL is required'')\<rparr>,
      issued = [], projectCreated = False\<rparr> \<and>
   issued (handleUseDefaults rejecting (initialForm\<lparr>name := lit ''docs''\<rparr>)) =
     [(lit ''docs'', [], [])] \<and>
   issued (handleSubmit rejecting (initialForm\<lparr>name := lit ''docs'', currentUrl := lit ''x''\<rparr>)) \<noteq> [] \<and>
   \<not> blank (currentUrl (initialForm\<lparr>name := lit ''docs'', currentUrl := lit ''x''\<rparr>))"
proof -
  have h: "\<not> blank (name (initialForm\<lparr>name := lit ''docs''\<rparr>))"
    "list_all blank (urls (initialForm\<lparr>name := lit ''docs''\<rparr>))"
    "blank (currentUrl (initialForm\<lparr>name := lit ''docs''\<rparr>))"
    by (simp_all add: initialForm_def eval_simps)
  have t: "trim (name (initialForm\<lparr>name := lit ''docs''\<rparr>)) = lit ''docs''"
    "trim (description (initialForm\<lparr>name := lit ''docs''\<rparr>)) = []"
    by (simp_all add: initialForm_def eval_simps)
  have i: "issued (handleSubmit rejecting (initialForm\<lparr>name := lit ''docs'', currentUrl := lit ''x''\<rparr>)) \<noteq> []"
    by (simp add: handleSubmit_def initialForm_def issued_createSettled Let_def eval_simps)
  have c: "\<not> blank (currentUrl (initialForm\<lparr>name := lit ''docs'', currentUrl := lit ''x''\<rparr>))"
    by (simp add: eval_simps)
  from h t i c creation_paths_differ [of rejecting "initialForm\<lparr>name := lit ''docs''\<rparr>"]
    creation_paths_differ [of rejecting "initialForm\<lparr>name := lit ''docs'', currentUrl := lit ''x''\<rparr>"]
  show ?thesis by simp
qed

text \<open>
  Claim C9. After any sequence of events on the form, each URL of each call of
  \<open>createProject\<close> that a submit handler issues is non-empty and equal to its own
  trimming: the entries of the list were inserted trimmed by \<open>addURL\<close>, the blank ones
  (the initial placeholder among them) are filtered out, and the text of the input
  box is appended trimmed.
\<close>

theorem submitted_urls_trimmed:
  "(n, d, us) \<in> set (issued (handleSubmit create (form_after events))) \<union>
               set (issued (handleUseDefaults create (form_after events))) \<Longrightarrow>
   u \<in> set us \<Longrightarrow> u \<noteq> [] \<and> trim u = u"
proof -
  let ?s = "form_after events"
  assume c: "(n, d, us) \<in> set (issued (handleSubmit create ?s)) \<union>
                          set (issued (handleUseDefaults create ?s))"
    and u: "u \<in> set us"
  from c u have "(u \<in> set (urls ?s) \<and> \<not> blank u) \<or>
      (u = trim (currentUrl ?s) \<and> \<not> blank (currentUrl ?s))"
    by (auto simp: handleSubmit_def handleUseDefaults_def Let_def issued_createSettled
        split: if_splits)
  then show ?thesis
  proof
    assume "u \<in> set (urls ?s) \<and> \<not> blank u"
    then show ?thesis using form_after_urls_trimmed [of u events] by (auto simp: blank_def)
  next
    assume "u = trim (currentUrl ?s) \<and> \<not> blank (currentUrl ?s)"
    then show ?thesis by (simp add: trim_idem blank_def)
  qed
qed

theorem submitted_urls_trimmed_witness:
  "form_after [SetName (lit ''docs''), SetCurrentUrl (lit '' a ''), AddURL, SetCurrentUrl (lit ''b '')] =
     \<lparr>name = lit ''docs'', description = [], urls = [lit ''a''], currentUrl = lit ''b '',
      loading = False, error = None\<rparr> \<and>
   issued (handleSubmit rejecting
     (form_after [SetName (lit ''docs''), SetCurrentUrl (lit '' a ''), AddURL, SetCurrentUrl (lit ''b '')])) =
     [(lit ''docs'', [], [lit ''a'', lit ''b''])] \<and>
   lit ''a'' \<noteq> [] \<and> trim (lit ''a'') = lit ''a'' \<and> lit ''b'' \<noteq> [] \<and> trim (lit ''b'') = lit ''b''"
proof -
  let ?events = "[SetName (lit ''docs''), SetCurrentUrl (lit '' a ''), AddURL, SetCurrentUrl (lit ''b '')]"
  have f: "form_after ?events =
     \<lparr>name = lit ''docs'', description = [], urls = [lit ''a''], currentUrl = lit ''b '',
      loading = False, error = None\<rparr>"
    by (simp add: form_after_def addURL_def initialForm_def eval_simps)
  have i: "issued (handleSubmit rejecting (form_after ?events)) =
     [(lit ''docs'', [], [lit ''a'', lit ''b''])]"
    unfolding f by (simp add: handleSubmit_def issued_createSettled Let_def eval_simps)
  then have c: "(lit ''docs'', [], [lit ''a'', lit ''b'']) \<in>
      set (issued (handleSubmit rejecting (form_after ?events))) \<union>
      set (issued (handleUseDefaults rejecting (form_after ?events)))"
    by simp
  have a: "lit ''a'' \<in> set [lit ''a'', lit ''b'']" and b: "lit ''b'' \<in> set [lit ''a'', lit ''b'']"
    by simp_all
  from f i submitted_urls_trimmed [OF c a] submitted_urls_trimmed [OF c b]
  show ?thesis by (intro conjI) simp_all
qed

text \<open>
  Claim C10. When the URL input box holds non-blank text at submission, every call of
  \<open>createProject\<close> the form's submit handler issues has that text, trimmed, as the
  last element of its URL list; and when the name is not blank the handler does issue
  the call, with the non-blank entries of the list followed by that text.
\<close>

theorem pending_url_sent_last:
  "\<not> blank (currentUrl s) \<Longrightarrow>
   (\<forall>(n, d, us) \<in> set (issued (handleSubmit create s)). us \<noteq> [] \<and> last us = trim (currentUrl s)) \<and>
   (\<not> blank (name s) \<longrightarrow>
      issued (handleSubmit create s) =
        [(trim (name s), trim (description s),
          filter (\<lambda>u. \<not> blank u) (urls s) @ [trim (currentUrl s)])])"
  by (auto simp: handleSubmit_def Let_def issued_createSettled)

theorem pending_url_sent_last_witness:
  "\<not> blank (currentUrl (initialForm\<lparr>name := lit ''docs'', urls := [lit ''a''], currentUrl := lit '' b ''\<rparr>)) \<and>
   \<not> blank (name (initialForm\<lparr>name := lit ''docs'', urls := [lit ''a''], currentUrl := lit '' b ''\<rparr>)) \<and>
   issued (handleSubmit rejecting (initialForm\<lparr>name := lit ''docs'', urls := [lit ''a''], currentUrl := lit '' b ''\<rparr>)) =
     [(lit ''docs'', [], [lit ''a'', lit ''b''])]"
proof -
  have h: "\<not> blank (currentUrl (initialForm\<lparr>name := lit ''docs'', urls := [lit ''a''], currentUrl := lit '' b ''\<rparr>))"
    "\<not> blank (name (initialForm\<lparr>name := lit ''docs'', urls := [lit ''a''], currentUrl := lit '' b ''\<rparr>))"
    by (simp_all add: eval_simps)
  have t: "trim (lit ''docs'') = lit ''docs''" "trim (lit '' b '') = lit ''b''" "trim [] = []"
    "\<not> blank (lit ''a'')"
    by (simp_all add: eval_simps)
  from h t pending_url_sent_last [of "initialForm\<lparr>name := lit ''docs'', urls := [lit ''a''], currentUrl := lit '' b ''\<rparr>" rejecting]
  show ?thesis by (simp add: initialForm_def)
qed

section \<open>The query operation\<close>

lemma find_touched:
  "find (\<lambda>c. id_c c = cid) xs = Some chat \<Longrightarrow>
   find (\<lambda>c. id_c c = cid) (map (\<lambda>c. if id_c c = cid then c\<lparr>updated_at_c := t\<rparr> else c) xs) =
     Some (chat\<lparr>updated_at_c := t\<rparr>)"
  by (induction xs) (auto split: if_splits)

lemma appendMessage_known:
  "find_chat st cid = Some chat \<Longrightarrow>
   \<exists>st'. appendMessage stamp st cid r text' srcs =
           Inr (\<lparr>id_m = stamp_id stamp, role = r, content = text', sources = srcs,
                  created_at_m = stamp_time stamp\<rparr>, st') \<and>
         find_chat st' cid = Some (chat\<lparr>updated_at_c := stamp_time stamp\<rparr>) \<and>
         listMessages st' cid =
           listMessages st cid @
             [\<lparr>id_m = stamp_id stamp, role = r, content = text', sources = srcs,
               created_at_m = stamp_time stamp\<rparr>]"
  by (simp add: appendMessage_def find_chat_def listMessages_def find_touched Let_def)

lemma run_query_known:
  assumes "find_chat st cid = Some chat"
  shows "\<exists>a srcs st'.
     run_query P su sv st cid asked' =
       (Inr \<lparr>answer = a, sources_r = srcs, message_id = stamp_id sv\<rparr>, st') \<and>
     listMessages st' cid =
       listMessages st cid @
         [\<lparr>id_m = stamp_id su, role = User, content = asked', sources = [],
           created_at_m = stamp_time su\<rparr>,
          \<lparr>id_m = stamp_id sv, role = Assistant, content = a, sources = srcs,
           created_at_m = stamp_time sv\<rparr>]"
proof -
  from appendMessage_known [OF assms, of su User asked' "[]"]
  obtain st1 where u: "appendMessage su st cid User asked' [] =
      Inr (\<lparr>id_m = stamp_id su, role = User, content = asked', sources = [],
             created_at_m = stamp_time su\<rparr>, st1)"
    and c1: "find_chat st1 cid = Some (chat\<lparr>updated_at_c := stamp_time su\<rparr>)"
    and l1: "listMessages st1 cid = listMessages st cid @
      [\<lparr>id_m = stamp_id su, role = User, content = asked', sources = [],
        created_at_m = stamp_time su\<rparr>]"
    by blast
  obtain a srcs where o: "(case pipeline P st1 chat asked' of
        Inr generated \<Rightarrow> generated | Inl e \<Rightarrow> (describe_error P e, [])) = (a, srcs)"
    by (cases "case pipeline P st1 chat asked' of
        Inr generated \<Rightarrow> generated | Inl e \<Rightarrow> (describe_error P e, [])") auto
  from appendMessage_known [OF c1, of sv Assistant a srcs]
  obtain st2 where v: "appendMessage sv st1 cid Assistant a srcs =
      Inr (\<lparr>id_m = stamp_id sv, role = Assistant, content = a, sources = srcs,
             created_at_m = stamp_time sv\<rparr>, st2)"
    and l2: "listMessages st2 cid = listMessages st1 cid @
      [\<lparr>id_m = stamp_id sv, role = Assistant, content = a, sources = srcs,
        created_at_m = stamp_time sv\<rparr>]"
    by blast
  have "run_query P su sv st cid asked' =
      (Inr \<lparr>answer = a, sources_r = srcs, message_id = stamp_id sv\<rparr>, st2)"
    by (simp add: run_query_def assms u o v)
  with l1 l2 show ?thesis by simp
qed

lemma query_arguments_sent:
  "query_arguments
     (payload (api_post ''/query''
        (JObject [(''chat_id'', JString chatId), (''question'', JString asked')]))) =
   Some (chatId, asked')"
  by (simp add: query_arguments_def api_post_def)

lemma backend_query:
  "backend P su sv refuse st
     (api_post ''/query'' (JObject [(''chat_id'', JString chatId), (''question'', JString asked')])) =
   (case run_query P su sv st chatId asked' of
      (Inl e, st') \<Rightarrow> (Inl (refuse e), st')
    | (Inr r, st') \<Rightarrow> (Inr \<lparr>status = 200, data = encode_response r\<rparr>, st'))"
  by (simp add: backend_def query_arguments_sent) (simp add: api_post_def)

text \<open>
  Claim C6. \<open>queryRAG\<close> takes a chat id and a question and posts the object with the
  two properties \<open>chat_id\<close> and \<open>question\<close> to \<open>/query\<close>; when the request is rejected
  so is the query, and otherwise its result is the body of the response. Answered by
  the query endpoint of the specification, for a chat the store knows, the result is
  an object of exactly the three properties \<open>answer\<close> (a string), \<open>sources\<close> (a list
  of strings) and \<open>message_id\<close> (a string), whether the pipeline succeeded or failed;
  and \<open>message_id\<close> is the id of the assistant message that the query has appended
  last to the chat, after the user's message, with the returned answer as its content
  and the returned sources as its sources. For a chat the store does not know the
  query is rejected and the store is unchanged.
\<close>

theorem query_contract:
  "queryRAG send chatId question =
     (case send \<lparr>http_method = POST, baseURL = ''http://localhost:8000'', url = ''/query'',
                 headers = [(''Content-Type'', ''application/json'')],
                 payload = Some (JObject [(''chat_id'', JString chatId),
                                          (''question'', JString question)])\<rparr> of
        Inl err \<Rightarrow> Inl err
      | Inr response \<Rightarrow> Inr (data response)) \<and>
   (find_chat st chatId \<noteq> None \<longrightarrow>
      (\<exists>a srcs.
         queryRAG (\<lambda>req. fst (backend P su sv refuse st req)) chatId question =
           Inr (JObject [(''answer'', JString a), (''sources'', JArray (map JString srcs)),
                         (''message_id'', JString (stamp_id sv))]) \<and>
         listMessages
           (snd (backend P su sv refuse st
              (api_post ''/query''
                 (JObject [(''chat_id'', JString chatId), (''question'', JString question)]))))
           chatId =
         listMessages st chatId @
           [\<lparr>id_m = stamp_id su, role = User, content = question, sources = [],
             created_at_m = stamp_time su\<rparr>,
            \<lparr>id_m = stamp_id sv, role = Assistant, content = a, sources = srcs,
             created_at_m = stamp_time sv\<rparr>])) \<and>
   (find_chat st chatId = None \<longrightarrow>
      queryRAG (\<lambda>req. fst (backend P su sv refuse st req)) chatId question =
        Inl (refuse NotFoundError) \<and>
      snd (backend P su sv refuse st
             (api_post ''/query''
                (JObject [(''chat_id'', JString chatId), (''question'', JString question)]))) = st)"
proof -
  have 1: "queryRAG send chatId question =
     (case send \<lparr>http_method = POST, baseURL = ''http://localhost:8000'', url = ''/query'',
                 headers = [(''Content-Type'', ''application/json'')],
                 payload = Some (JObject [(''chat_id'', JString chatId),
                                          (''question'', JString question)])\<rparr> of
        Inl err \<Rightarrow> Inl err
      | Inr response \<Rightarrow> Inr (data response))"
    by (simp add: queryRAG_def api_post_def API_BASE_URL_def)
  have 2: "find_chat st chatId \<noteq> None \<longrightarrow>
      (\<exists>a srcs.
         queryRAG (\<lambda>req. fst (backend P su sv refuse st req)) chatId question =
           Inr (JObject [(''answer'', JString a), (''sources'', JArray (map JString srcs)),
                         (''message_id'', JString (stamp_id sv))]) \<and>
         listMessages
           (snd (backend P su sv refuse st
              (api_post ''/query''
                 (JObject [(''chat_id'', JString chatId), (''question'', JString question)]))))
           chatId =
         listMessages st chatId @
           [\<lparr>id_m = stamp_id su, role = User, content = question, sources = [],
             created_at_m = stamp_time su\<rparr>,
            \<lparr>id_m = stamp_id sv, role = Assistant, content = a, sources = srcs,
             created_at_m = stamp_time sv\<rparr>])"
  proof
    assume "find_chat st chatId \<noteq> None"
    then obtain chat where "find_chat st chatId = Some chat" by blast
    from run_query_known [OF this, of P su sv question]
    obtain a srcs st' where r: "run_query P su sv st chatId question =
        (Inr \<lparr>answer = a, sources_r = srcs, message_id = stamp_id sv\<rparr>, st')"
      and l: "listMessages st' chatId =
        listMessages st chatId @
          [\<lparr>id_m = stamp_id su, role = User, content = question, sources = [],
            created_at_m = stamp_time su\<rparr>,
           \<lparr>id_m = stamp_id sv, role = Assistant, content = a, sources = srcs,
            created_at_m = stamp_time sv\<rparr>]"
      by blast
    have "queryRAG (\<lambda>req. fst (backend P su sv refuse st req)) chatId question =
           Inr (JObject [(''answer'', JString a), (''sources'', JArray (map JString srcs)),
                         (''message_id'', JString (stamp_id sv))])"
      by (simp add: queryRAG_def backend_query r encode_response_def)
    moreover have "listMessages
           (snd (backend P su sv refuse st
              (api_post ''/query''
                 (JObject [(''chat_id'', JString chatId), (''question'', JString question)]))))
           chatId = listMessages st' chatId"
      by (simp add: backend_query r)
    ultimately show "\<exists>a srcs.
         queryRAG (\<lambda>req. fst (backend P su sv refuse st req)) chatId question =
           Inr (JObject [(''answer'', JString a), (''sources'', JArray (map JString srcs)),
                         (''message_id'', JString (stamp_id sv))]) \<and>
         listMessages
           (snd (backend P su sv refuse st
              (api_post ''/query''
                 (JObject [(''chat_id'', JString chatId), (''question'', JString question)]))))
           chatId =
         listMessages st chatId @
           [\<lparr>id_m = stamp_id su, role = User, content = question, sources = [],
             created_at_m = stamp_time su\<rparr>,
            \<lparr>id_m = stamp_id sv, role = Assistant, content = a, sources = srcs,
             created_at_m = stamp_time sv\<rparr>]"
      using l by (intro exI [of _ a] exI [of _ srcs]) simp
  qed
  have 3: "find_chat st chatId = None \<longrightarrow>
      queryRAG (\<lambda>req. fst (backend P su sv refuse st req)) chatId question =
        Inl (refuse NotFoundError) \<and>
      snd (backend P su sv refuse st
             (api_post ''/query''
                (JObject [(''chat_id'', JString chatId), (''question'', JString question)]))) = st"
    by (simp add: queryRAG_def backend_query run_query_def)
  show ?thesis by (intro conjI 1 2 3)
qed

theorem query_contract_witness:
  "find_chat store1 (lit ''a'') \<noteq> None \<and>
   queryRAG (\<lambda>req. fst (backend providers1 stampU stampV refusing store1 req)) (lit ''a'')
       (lit ''why?'') =
     Inr (JObject [(''answer'', JString (lit ''yes'')),
                   (''sources'', JArray [JString (lit ''https://x.org/'')]),
                   (''message_id'', JString (lit ''m7''))]) \<and>
   listMessages
     (snd (backend providers1 stampU stampV refusing store1
        (api_post ''/query''
           (JObject [(''chat_id'', JString (lit ''a'')), (''question'', JString (lit ''why?''))]))))
     (lit ''a'') =
     [asked,
      \<lparr>id_m = lit ''m6'', role = User, content = lit ''why?'', sources = [],
       created_at_m = lit ''t3''\<rparr>,
      \<lparr>id_m = lit ''m7'', role = Assistant, content = lit ''yes'',
       sources = [lit ''https://x.org/''], created_at_m = lit ''t4''\<rparr>] \<and>
   find_chat store1 (lit ''zz'') = None \<and>
   queryRAG (\<lambda>req. fst (backend providers1 stampU stampV refusing store1 req)) (lit ''zz'')
       (lit ''why?'') =
     Inl (Error (lit ''Request failed''))"
proof -
  have k: "find_chat store1 (lit ''a'') \<noteq> None" "find_chat store1 (lit ''zz'') = None"
    by (simp_all add: find_chat_def store1_def chatA_def chatB_def lit_def)
  have e: "queryRAG (\<lambda>req. fst (backend providers1 stampU stampV refusing store1 req)) (lit ''a'')
       (lit ''why?'') =
     Inr (JObject [(''answer'', JString (lit ''yes'')),
                   (''sources'', JArray [JString (lit ''https://x.org/'')]),
                   (''message_id'', JString (lit ''m7''))])"
    by (simp add: queryRAG_def backend_query run_query_def appendMessage_def find_chat_def
        pipeline_def recent_history_def listMessages_def encode_response_def Let_def
        store1_def stampU_def stampV_def retrieving1_def generating1_def describing1_def
        providers1_def chatA_def chatB_def asked_def lit_def)
  have l: "listMessages store1 (lit ''a'') = [asked]"
    by (simp add: listMessages_def store1_def)
  have s: "stamp_id stampU = lit ''m6''" "stamp_time stampU = lit ''t3''"
    "stamp_id stampV = lit ''m7''" "stamp_time stampV = lit ''t4''"
    "refusing NotFoundError = Error (lit ''Request failed'')"
    by (simp_all add: stampU_def stampV_def refusing_def)
  note a = query_contract [where st = store1 and chatId = "lit ''a''" and question = "lit ''why?''"
      and P = providers1 and su = stampU and sv = stampV and refuse = refusing,
      THEN conjunct2, THEN conjunct1, THEN mp, OF k(1)]
  note z = query_contract [where st = store1 and chatId = "lit ''zz''" and question = "lit ''why?''"
      and P = providers1 and su = stampU and sv = stampV and refuse = refusing,
      THEN conjunct2, THEN conjunct2, THEN mp, OF k(2), THEN conjunct1]
  from a obtain a' srcs where
    "queryRAG (\<lambda>req. fst (backend providers1 stampU stampV refusing store1 req)) (lit ''a'')
       (lit ''why?'') =
     Inr (JObject [(''answer'', JString a'), (''sources'', JArray (map JString srcs)),
                   (''message_id'', JString (stamp_id stampV))])"
    and m: "listMessages
     (snd (backend providers1 stampU stampV refusing store1
        (api_post ''/query''
           (JObject [(''chat_id'', JString (lit ''a'')), (''question'', JString (lit ''why?''))]))))
     (lit ''a'') =
     listMessages store1 (lit ''a'') @
       [\<lparr>id_m = stamp_id stampU, role = User, content = lit ''why?'', sources = [],
         created_at_m = stamp_time stampU\<rparr>,
        \<lparr>id_m = stamp_id stampV, role = Assistant, content = a', sources = srcs,
         created_at_m = stamp_time stampV\<rparr>]"
    by blast
  then have "a' = lit ''yes''" "map JString srcs = [JString (lit ''https://x.org/'')]"
    unfolding e by simp_all
  then have "a' = lit ''yes''" "srcs = [lit ''https://x.org/'']"
    by (auto simp: map_eq_Cons_conv)
  with m l s have m': "listMessages
     (snd (backend providers1 stampU stampV refusing store1
        (api_post ''/query''
           (JObject [(''chat_id'', JString (lit ''a'')), (''question'', JString (lit ''why?''))]))))
     (lit ''a'') =
     [asked,
      \<lparr>id_m = lit ''m6'', role = User, content = lit ''why?'', sources = [],
       created_at_m = lit ''t3''\<rparr>,
      \<lparr>id_m = lit ''m7'', role = Assistant, content = lit ''yes'',
       sources = [lit ''https://x.org/''], created_at_m = lit ''t4''\<rparr>]"
    by simp
  from z s have z': "queryRAG (\<lambda>req. fst (backend providers1 stampU stampV refusing store1 req)) (lit ''zz'')
       (lit ''why?'') = Inl (Error (lit ''Request failed''))"
    by simp
  show ?thesis by (intro conjI k e m' z')
qed

section \<open>The chat interface: transcript and chat list\<close>

lemmas chat_inputs = chatA_def chatB_def clock1_def clock2_def reply_def answering_def
  typing_def

text \<open>
  Claim C1. When \<open>queryRAG\<close> rejects, the part of the submit handler that runs after
  the \<open>await\<close> appends one message to the transcript as it is at that moment: its
  role is assistant, its sources are empty, its content is "Sorry, I encountered an
  error: " followed by the message of the error (or "Unknown error"). It clears the
  loading flag and changes nothing else, so the handler ends normally with the chat
  still selected. A whole submission whose query rejects therefore appends the user
  message and then exactly this one assistant message.
\<close>

theorem query_failure_becomes_message:
  "submit_settled C clk' (Inl err) s' =
     s'\<lparr>messages := messages s' @ [errorMessage clk' err], loading_c := False\<rparr> \<and>
   role (errorMessage clk' err) = Assistant \<and>
   sources (errorMessage clk' err) = [] \<and>
   content (errorMessage clk' err) =
     lit ''Sorry, I encountered an error: '' @
     (case err of Error m \<Rightarrow> m | NotAnError \<Rightarrow> lit ''Unknown error'') \<and>
   role (userMessage clk s) = User \<and>
   (\<not> submit_refused s \<and> currentChat s = Some C \<and>
    query (id_c C) (currentMessage s) = Inl err \<longrightarrow>
      handleSubmit_c query clk clk' s =
        s\<lparr>messages := messages s @ [userMessage clk s, errorMessage clk' err],
          currentMessage := [], loading_c := False\<rparr>)"
  by (simp add: submit_settled_def errorMessage_def userMessage_def handleSubmit_c_def
      submit_begin_def)

theorem query_failure_becomes_message_witness:
  "\<not> submit_refused typing \<and> currentChat typing = Some chatA \<and>
   failing (id_c chatA) (currentMessage typing) = Inl (Error (lit ''Network Error'')) \<and>
   handleSubmit_c failing clock1 clock2 typing =
     typing\<lparr>messages :=
        [asked, answered,
         \<lparr>id_m = lit ''41'', role = User, content = lit ''why?'', sources = [],
          created_at_m = lit ''t3''\<rparr>,
         \<lparr>id_m = lit ''58'', role = Assistant,
          content = lit ''Sorry, I encountered an error: Network Error'', sources = [],
          created_at_m = lit ''t4''\<rparr>],
       currentMessage := [], loading_c := False\<rparr>"
proof -
  have h: "\<not> submit_refused typing" "currentChat typing = Some chatA"
    "failing (id_c chatA) (currentMessage typing) = Inl (Error (lit ''Network Error''))"
    by (simp_all add: submit_refused_def failing_def chat_inputs eval_simps)
  have m: "userMessage clock1 typing =
      \<lparr>id_m = lit ''41'', role = User, content = lit ''why?'', sources = [],
          created_at_m = lit ''t3''\<rparr>"
    "errorMessage clock2 (Error (lit ''Network Error'')) =
     \<lparr>id_m = lit ''58'', role = Assistant,
          content = lit ''Sorry, I encountered an error: Network Error'', sources = [],
          created_at_m = lit ''t4''\<rparr>"
    "messages typing = [asked, answered]"
    by (simp_all add: userMessage_def errorMessage_def chat_inputs lit_def toString.simps digit_def)
  from h m query_failure_becomes_message [of chatA clock2 "Error (lit ''Network Error'')" typing clock1 typing failing]
  show ?thesis by simp
qed

text \<open>
  Claim C3. A chat that has been created is put at the head of the chat list. After a
  successful query in chat \<open>C\<close> the list is \<open>C\<close> followed by the chats with another id,
  in the order they had. In particular: starting with no chats, creating \<open>A\<close>, creating
  \<open>B\<close>, switching back to \<open>A\<close> and sending a non-blank question there that is answered
  leaves the list \<open>[A, B]\<close>, whatever the loads of the transcripts return, provided the
  two chats have different ids.
\<close>

theorem chat_list_move_to_front:
  "chats (createNewChat_settled captured (Inr newChat) s') = newChat # captured \<and>
   (create (id_p project) (lit ''Chat '' @ toString (length (chats s) + 1)) = Inr newChat \<longrightarrow>
      chats (createNewChat create project s) = newChat # chats s) \<and>
   chats (submit_settled C clk' (Inr response) s') =
     C # filter (\<lambda>c. id_c c \<noteq> id_c C) (chats s') \<and>
   (\<not> submit_refused t \<and> currentChat t = Some C \<and>
    query (id_c C) (currentMessage t) = Inr response \<longrightarrow>
      chats (handleSubmit_c query clk clk' t) =
        C # filter (\<lambda>c. id_c c \<noteq> id_c C) (chats t)) \<and>
   (id_c A \<noteq> id_c B \<and> \<not> blank question \<longrightarrow>
      chats (handleSubmit_c (\<lambda>chatId q. Inr response) clk clk'
        ((currentChat_effect fetch_c (switchChat A
          (currentChat_effect fetch_b (createNewChat (\<lambda>projectId title'. Inr B) project
            (currentChat_effect fetch_a (createNewChat (\<lambda>projectId title'. Inr A) project
              initialChatState))))))
         \<lparr>currentMessage := question\<rparr>)) = [A, B])"
proof -
  have lm: "chats (loadMessages_settled res t) = chats t"
    "currentChat (loadMessages_settled res t) = currentChat t"
    "loading_c (loadMessages_settled res t) = loading_c t" for res t
    by (simp_all add: loadMessages_settled_def split: sum.split)
  have ef: "chats (currentChat_effect g t) = chats t"
    "currentChat (currentChat_effect g t) = currentChat t"
    "loading_c (currentChat_effect g t) = loading_c t" for g t
    by (simp_all add: currentChat_effect_def loadMessages_def lm split: option.split)
  show ?thesis
    by (simp add: createNewChat_settled_def createNewChat_def submit_settled_def
        handleSubmit_c_def submit_begin_def submit_refused_def switchChat_def
        initialChatState_def ef)
qed

theorem chat_list_move_to_front_witness:
  "creatingA (id_p projectP) (lit ''Chat '' @ toString (length (chats initialChatState) + 1)) =
     Inr chatA \<and>
   chats (createNewChat creatingA projectP initialChatState) = [chatA] \<and>
   \<not> submit_refused typing \<and> currentChat typing = Some chatA \<and>
   answering (id_c chatA) (currentMessage typing) = Inr reply \<and>
   chats typing = [chatB, chatA] \<and>
   chats (handleSubmit_c answering clock1 clock2 typing) = [chatA, chatB] \<and>
   id_c chatA \<noteq> id_c chatB \<and> \<not> blank (lit ''why?'') \<and>
   chats (handleSubmit_c answering clock1 clock2
        ((currentChat_effect noMessages (switchChat chatA
          (currentChat_effect noMessages (createNewChat creatingB projectP
            (currentChat_effect noMessages (createNewChat creatingA projectP
              initialChatState))))))
         \<lparr>currentMessage := lit ''why?''\<rparr>)) = [chatA, chatB]"
proof -
  have h: "id_c chatA \<noteq> id_c chatB" "\<not> blank (lit ''why?'')"
    "creatingA (id_p projectP) (lit ''Chat '' @ toString (length (chats initialChatState) + 1)) =
     Inr chatA"
    "\<not> submit_refused typing" "currentChat typing = Some chatA"
    "answering (id_c chatA) (currentMessage typing) = Inr reply"
    "chats typing = [chatB, chatA]" "chats initialChatState = []"
    by (simp_all add: submit_refused_def initialChatState_def creatingA_def chat_inputs
        eval_simps)
  have f: "answering = (\<lambda>chatId q. Inr reply)" "creatingA = (\<lambda>projectId title'. Inr chatA)"
    "creatingB = (\<lambda>projectId title'. Inr chatB)"
    by (simp_all add: answering_def creatingA_def creatingB_def fun_eq_iff)
  from h chat_list_move_to_front [where create = creatingA and project = projectP
      and s = initialChatState and newChat = chatA and t = typing and C = chatA
      and query = answering and response = reply and clk = clock1 and clk' = clock2
      and A = chatA and B = chatB and question = "lit ''why?''"
      and fetch_a = noMessages and fetch_b = noMessages
      and fetch_c = noMessages]
  show ?thesis unfolding f by simp
qed


text \<open>
  Claim C4. Loading a chat replaces the transcript by the fetched list, in its order.
  A query turn appends the user message at the end of the transcript, and then the
  assistant message (or the error message) at the end; the messages that were there
  stay in front, in their order. The main area shows the transcript in the order of
  the list.
\<close>

theorem transcript_in_order:
  "loadMessages_settled (Inr messageList) s = s\<lparr>messages := messageList\<rparr> \<and>
   (getMessages chatId = Inr messageList \<longrightarrow>
      messages (loadMessages getMessages chatId s) = messageList) \<and>
   messages (submit_begin clk t) = messages t @ [userMessage clk t] \<and>
   messages (submit_settled C clk' res s') =
     messages s' @ [case res of Inr response \<Rightarrow> assistantMessage clk' response
                             | Inl err \<Rightarrow> errorMessage clk' err] \<and>
   (\<not> submit_refused t \<and> currentChat t = Some C \<longrightarrow>
      messages (handleSubmit_c query clk clk' t) =
        messages t @
        [userMessage clk t,
         case query (id_c C) (currentMessage t) of
           Inr response \<Rightarrow> assistantMessage clk' response
         | Inl err \<Rightarrow> errorMessage clk' err]) \<and>
   prefix (messages t) (messages (handleSubmit_c query clk clk' t)) \<and>
   (currentChat v \<noteq> None \<and> messages v \<noteq> [] \<longrightarrow> render_main v = Transcript (messages v))"
proof -
  have 1: "loadMessages_settled (Inr messageList) s = s\<lparr>messages := messageList\<rparr>"
    by (simp add: loadMessages_settled_def)
  have 2: "getMessages chatId = Inr messageList \<longrightarrow>
      messages (loadMessages getMessages chatId s) = messageList"
    by (simp add: loadMessages_def loadMessages_settled_def)
  have 3: "messages (submit_begin clk t) = messages t @ [userMessage clk t]"
    by (simp add: submit_begin_def)
  have 4: "messages (submit_settled c clk' res u) =
     messages u @ [case res of Inr response \<Rightarrow> assistantMessage clk' response
                             | Inl err \<Rightarrow> errorMessage clk' err]" for c res u
    by (simp add: submit_settled_def split: sum.split)
  have 5: "\<not> submit_refused t \<and> currentChat t = Some C \<longrightarrow>
      messages (handleSubmit_c query clk clk' t) =
        messages t @
        [userMessage clk t,
         case query (id_c C) (currentMessage t) of
           Inr response \<Rightarrow> assistantMessage clk' response
         | Inl err \<Rightarrow> errorMessage clk' err]"
    by (simp add: handleSubmit_c_def 3 4)
  have 6: "prefix (messages t) (messages (handleSubmit_c query clk clk' t))"
  proof (cases "submit_refused t")
    case True
    then show ?thesis by (simp add: handleSubmit_c_def)
  next
    case False
    then obtain c where "currentChat t = Some c"
      by (auto simp: submit_refused_def)
    with False show ?thesis by (simp add: handleSubmit_c_def 3 4)
  qed
  have 7: "currentChat v \<noteq> None \<and> messages v \<noteq> [] \<longrightarrow> render_main v = Transcript (messages v)"
    by (auto simp: render_main_def)
  show ?thesis by (intro conjI 1 2 3 4 5 6 7)
qed

theorem transcript_in_order_witness:
  "stored (id_c chatA) = Inr [asked, answered] \<and>
   messages (loadMessages stored (id_c chatA) (switchChat chatA initialChatState)) =
     [asked, answered] \<and>
   \<not> submit_refused typing \<and> currentChat typing = Some chatA \<and>
   messages (handleSubmit_c answering clock1 clock2 typing) =
     [asked, answered, userMessage clock1 typing, assistantMessage clock2 reply] \<and>
   currentChat typing \<noteq> None \<and> messages typing \<noteq> [] \<and>
   render_main typing = Transcript [asked, answered]"
proof -
  have h: "stored (id_c chatA) = Inr [asked, answered]"
    "\<not> submit_refused typing" "currentChat typing = Some chatA"
    "currentChat typing \<noteq> None" "messages typing \<noteq> []"
    "messages typing = [asked, answered]"
    "answering (id_c chatA) (currentMessage typing) = Inr reply"
    by (simp_all add: submit_refused_def stored_def chat_inputs eval_simps)
  from h transcript_in_order [where getMessages = stored and chatId = "id_c chatA"
      and messageList = "[asked, answered]" and s = "switchChat chatA initialChatState"
      and t = typing and C = chatA and query = answering and clk = clock1 and clk' = clock2
      and v = typing]
  show ?thesis by simp
qed

text \<open>
  Claim C7. The user message the chat interface constructs has role user and no
  sources. Of the messages a submission appends, the one with role user has no
  sources and any with sources has role assistant; so when no user message of the
  transcript has sources, none has after the submission, nor after either of its two
  parts.
\<close>

theorem user_messages_carry_no_sources:
  "role (userMessage clk s) = User \<and> sources (userMessage clk s) = [] \<and>
   (\<exists>new. messages (handleSubmit_c query clk clk' s) = messages s @ new \<and>
      (\<forall>m \<in> set new. (role m = User \<longrightarrow> sources m = []) \<and>
                       (sources m \<noteq> [] \<longrightarrow> role m = Assistant))) \<and>
   ((\<forall>m \<in> set (messages s). role m = User \<longrightarrow> sources m = []) \<longrightarrow>
      (\<forall>m \<in> set (messages (handleSubmit_c query clk clk' s)). role m = User \<longrightarrow> sources m = [])) \<and>
   ((\<forall>m \<in> set (messages s'). role m = User \<longrightarrow> sources m = []) \<longrightarrow>
      (\<forall>m \<in> set (messages (submit_begin clk s')). role m = User \<longrightarrow> sources m = []) \<and>
      (\<forall>m \<in> set (messages (submit_settled C clk' res s')). role m = User \<longrightarrow> sources m = []))"
proof -
  have u: "role (userMessage clk t) = User" "sources (userMessage clk t) = []" for t
    by (simp_all add: userMessage_def)
  have a: "role (assistantMessage clk' r) = Assistant" for r
    by (simp add: assistantMessage_def)
  have e: "role (errorMessage clk' x) = Assistant" "sources (errorMessage clk' x) = []" for x
    by (simp_all add: errorMessage_def)
  have n: "\<exists>new. messages (handleSubmit_c query clk clk' s) = messages s @ new \<and>
      (\<forall>m \<in> set new. (role m = User \<longrightarrow> sources m = []) \<and>
                       (sources m \<noteq> [] \<longrightarrow> role m = Assistant))"
    by (auto simp: handleSubmit_c_def submit_begin_def submit_settled_def u a e
        split: option.split sum.split)
  have b: "messages (submit_begin clk s') = messages s' @ [userMessage clk s']"
    by (simp add: submit_begin_def)
  have c: "messages (submit_settled C clk' res s') =
     messages s' @ [case res of Inr response \<Rightarrow> assistantMessage clk' response
                             | Inl err \<Rightarrow> errorMessage clk' err]"
    by (simp add: submit_settled_def split: sum.split)
  from n obtain new where new: "messages (handleSubmit_c query clk clk' s) = messages s @ new"
      "\<forall>m \<in> set new. (role m = User \<longrightarrow> sources m = []) \<and> (sources m \<noteq> [] \<longrightarrow> role m = Assistant)"
    by blast
  then have p: "(\<forall>m \<in> set (messages s). role m = User \<longrightarrow> sources m = []) \<longrightarrow>
      (\<forall>m \<in> set (messages (handleSubmit_c query clk clk' s)). role m = User \<longrightarrow> sources m = [])"
    by auto
  have q: "(\<forall>m \<in> set (messages s'). role m = User \<longrightarrow> sources m = []) \<longrightarrow>
      (\<forall>m \<in> set (messages (submit_begin clk s')). role m = User \<longrightarrow> sources m = []) \<and>
      (\<forall>m \<in> set (messages (submit_settled C clk' res s')). role m = User \<longrightarrow> sources m = [])"
    unfolding b c by (auto simp: u a e split: sum.split)
  show ?thesis by (intro conjI u n p q)
qed

theorem user_messages_carry_no_sources_witness:
  "messages typing = [asked, answered] \<and>
   role asked = User \<and> sources asked = [] \<and> role answered = Assistant \<and>
   messages (handleSubmit_c answering clock1 clock2 typing) =
     [asked, answered, userMessage clock1 typing, assistantMessage clock2 reply] \<and>
   role (userMessage clock1 typing) = User \<and>
   sources (userMessage clock1 typing) = [] \<and>
   role (assistantMessage clock2 reply) = Assistant \<and>
   sources (assistantMessage clock2 reply) = [lit ''https://x.org/'']"
proof -
  have t: "messages typing = [asked, answered]"
    "role asked = User" "sources asked = []" "role answered = Assistant"
    by (simp_all add: typing_def asked_def answered_def)
  then have h: "\<forall>m \<in> set (messages typing). role m = User \<longrightarrow> sources m = []"
    by simp
  have m: "messages (handleSubmit_c answering clock1 clock2 typing) =
     [asked, answered, userMessage clock1 typing, assistantMessage clock2 reply]"
    by (simp add: handleSubmit_c_def submit_refused_def submit_begin_def submit_settled_def
        chat_inputs eval_simps)
  have a: "role (assistantMessage clock2 reply) = Assistant"
    "sources (assistantMessage clock2 reply) = [lit ''https://x.org/'']"
    by (simp_all add: assistantMessage_def reply_def)
  note kept = user_messages_carry_no_sources [of clock1 typing answering clock2 typing chatA
      "Inr reply", THEN conjunct2, THEN conjunct2, THEN conjunct2, THEN conjunct1, THEN mp, OF h]
  have u: "role (userMessage clock1 typing) = User"
    by (simp add: userMessage_def)
  from kept have "role (userMessage clock1 typing) = User \<longrightarrow> sources (userMessage clock1 typing) = []"
    unfolding m by simp
  with u have s: "sources (userMessage clock1 typing) = []"
    by simp
  show ?thesis by (intro conjI t m a u s)
qed

section \<open>The retrieval engine: ranking\<close>

lemma desc_sorted_sort_key:
  "sorted_wrt (\<lambda>a b. snd b \<le> (snd a :: real)) (sort_key (\<lambda>p. - snd p) xs)"
proof -
  have "sorted (map (\<lambda>p. - snd p) (sort_key (\<lambda>p. - snd p) xs))"
    by (rule sorted_sort_key)
  then show ?thesis by (simp add: sorted_wrt_map)
qed

lemma filter_take_prefix: "prefix (filter P (take k xs)) (filter P xs)"
proof -
  have "filter P xs = filter P (take k xs) @ filter P (drop k xs)"
    by (simp flip: filter_append)
  then show ?thesis by (simp add: prefix_def)
qed

lemma ties_sort_key:
  "filter (\<lambda>p. snd p = v) (sort_key (\<lambda>p. - snd p) xs) = filter (\<lambda>p. snd p = (v::real)) xs"
  using sort_key_stable [of "\<lambda>p. - snd p" "- v" xs] by simp

text \<open>
  Claim C5. For every index, query and \<open>k\<close>, the scores of the sequence \<open>retrieve\<close>
  returns are in non-increasing order; it has \<open>min k n\<close> elements for an index of \<open>n\<close>
  chunks; together with some rest it is a rearrangement of all scored chunks, and no
  score in the rest exceeds a returned one; for every score, the returned chunks of
  that score are the first of the chunks of that score in insertion order; and for
  the empty index the result is the empty sequence.
\<close>

theorem retrieve_ranked:
  "sorted_wrt (\<lambda>a b. b \<le> a) (map snd (retrieve embedQuery index q k)) \<and>
   length (retrieve embedQuery index q k) = min k (length index) \<and>
   (\<exists>rest. mset (retrieve embedQuery index q k @ rest) = mset (scored embedQuery index q) \<and>
      (\<forall>p \<in> set (retrieve embedQuery index q k). \<forall>r \<in> set rest. snd r \<le> snd p)) \<and>
   (\<forall>v. prefix (filter (\<lambda>p. snd p = v) (retrieve embedQuery index q k))
          (filter (\<lambda>p. snd p = v) (scored embedQuery index q))) \<and>
   retrieve embedQuery [] q k = []"
proof -
  let ?xs = "scored embedQuery index q"
  let ?ys = "sort_key (\<lambda>p. - snd p) ?xs"
  have r: "retrieve embedQuery index q k = take k ?ys"
    by (simp add: retrieve_def)
  have s: "sorted_wrt (\<lambda>a b. snd b \<le> snd a) ?ys"
    by (rule desc_sorted_sort_key)
  then have "sorted_wrt (\<lambda>a b. snd b \<le> snd a) (take k ?ys @ drop k ?ys)"
    by simp
  then have t: "sorted_wrt (\<lambda>a b. snd b \<le> snd a) (take k ?ys)"
    and c: "\<forall>p \<in> set (take k ?ys). \<forall>r \<in> set (drop k ?ys). snd r \<le> snd p"
    unfolding sorted_wrt_append by simp_all
  have 1: "sorted_wrt (\<lambda>a b. b \<le> a) (map snd (retrieve embedQuery index q k))"
    using t by (simp add: r sorted_wrt_map)
  have 2: "length (retrieve embedQuery index q k) = min k (length index)"
    by (simp add: r scored_def min.commute)
  have "mset (take k ?ys @ drop k ?ys) = mset ?xs"
    by simp
  with c have 3: "\<exists>rest. mset (retrieve embedQuery index q k @ rest) = mset ?xs \<and>
      (\<forall>p \<in> set (retrieve embedQuery index q k). \<forall>r \<in> set rest. snd r \<le> snd p)"
    unfolding r by blast
  have 4: "prefix (filter (\<lambda>p. snd p = v) (retrieve embedQuery index q k))
          (filter (\<lambda>p. snd p = v) ?xs)" for v
    using filter_take_prefix [of "\<lambda>p. snd p = v" k ?ys] by (simp add: r ties_sort_key)
  have 5: "retrieve embedQuery [] q k = []"
    by (simp add: retrieve_def scored_def)
  from 1 2 3 4 5 show ?thesis by blast
qed

theorem retrieve_ranked_witness:
  "retrieve embed1 [chunk1, chunk2, chunk3] ''q'' 2 = [(chunk1, 1), (chunk3, 1)] \<and>
   scored embed1 [chunk1, chunk2, chunk3] ''q'' = [(chunk1, 1), (chunk2, 0), (chunk3, 1)] \<and>
   sorted_wrt (\<lambda>a b. b \<le> a) (map snd (retrieve embed1 [chunk1, chunk2, chunk3] ''q'' 2)) \<and>
   prefix (filter (\<lambda>p. snd p = 1) (retrieve embed1 [chunk1, chunk2, chunk3] ''q'' 2))
          (filter (\<lambda>p. snd p = 1) (scored embed1 [chunk1, chunk2, chunk3] ''q''))"
proof -
  have s: "scored embed1 [chunk1, chunk2, chunk3] ''q'' = [(chunk1, 1), (chunk2, 0), (chunk3, 1)]"
    by (simp add: scored_def embed1_def chunk1_def chunk2_def chunk3_def cosine_def dot_def)
  have r: "retrieve embed1 [chunk1, chunk2, chunk3] ''q'' 2 = [(chunk1, 1), (chunk3, 1)]"
    by (simp add: retrieve_def s)
  from s r retrieve_ranked [of embed1 "[chunk1, chunk2, chunk3]" "''q''" 2]
  show ?thesis by blast
qed

end
